theory Spec2Isabelle
  imports Complex_Main
begin

section \<open>JSON values and the Python operations the handler applies to them\<close>

text \<open>
  Everything the two remote services send back reaches the code as the result of
  \<^verbatim>\<open>response.json()\<close>: a Python value built from \<^verbatim>\<open>None\<close>, booleans, numbers,
  strings, lists and dicts with string keys. A dict is an association list in insertion
  order; a key is looked up with \<open>map_of\<close>.
\<close>

datatype json =
    JNull
  | JBool bool
  | JInt int
  | JFloat real
  | JStr string
  | JArr "json list"
  | JObj "(string \<times> json) list"

type_synonym dict = "(string \<times> json) list"

text \<open>A subscript is a string key or an integer index.\<close>

datatype key = StrKey string | IntKey int

text \<open>
  The exceptions that can travel through the pipeline. \<open>HTTPException\<close> is the
  one the code raises itself, with its status code and detail. The others are raised by the
  HTTP client (\<open>TransportError\<close>, any failure of \<^verbatim>\<open>client.post\<close>), by
  \<^verbatim>\<open>response.json()\<close> (\<open>JSONDecodeError\<close>), by the interpreter, or by the
  validation of a response model (\<open>ValidationError\<close>).
\<close>

datatype exn =
    HTTPException int string
  | TransportError string
  | JSONDecodeError string
  | KeyError key
  | IndexError
  | TypeError
  | AttributeError
  | ValidationError

text \<open>\<^verbatim>\<open>obj[k]\<close>: a dict is looked up (its keys are strings, so an integer is never
  among them), a list or a string is indexed by an integer, counting from the end when it is
  negative; nothing else can be subscripted.\<close>

definition py_index :: "'a list \<Rightarrow> int \<Rightarrow> exn + 'a" where
  "py_index xs i =
     (if 0 \<le> i \<and> i < int (length xs) then Inr (xs ! nat i)
      else if i < 0 \<and> - int (length xs) \<le> i then Inr (xs ! nat (int (length xs) + i))
      else Inl IndexError)"

definition py_getitem :: "json \<Rightarrow> key \<Rightarrow> exn + json" where
  "py_getitem obj k =
     (case obj of
        JObj kvs \<Rightarrow>
          (case k of
             StrKey s \<Rightarrow> (case map_of kvs s of Some v \<Rightarrow> Inr v | None \<Rightarrow> Inl (KeyError k))
           | IntKey i \<Rightarrow> Inl (KeyError k))
      | JArr xs \<Rightarrow>
          (case k of
             IntKey i \<Rightarrow> py_index xs i
           | StrKey s \<Rightarrow> Inl TypeError)
      | JStr s \<Rightarrow>
          (case k of
             IntKey i \<Rightarrow> (case py_index s i of Inl e \<Rightarrow> Inl e | Inr c \<Rightarrow> Inr (JStr [c]))
           | StrKey s' \<Rightarrow> Inl TypeError)
      | _ \<Rightarrow> Inl TypeError)"

text \<open>\<^verbatim>\<open>obj.get(k, default)\<close>: only a dict has the method.\<close>

definition py_get :: "json \<Rightarrow> string \<Rightarrow> json \<Rightarrow> exn + json" where
  "py_get obj k d =
     (case obj of
        JObj kvs \<Rightarrow> Inr (case map_of kvs k of Some v \<Rightarrow> v | None \<Rightarrow> d)
      | _ \<Rightarrow> Inl AttributeError)"

text \<open>\<^verbatim>\<open>k in obj\<close> for a string \<open>k\<close>: a key of a dict, an element of a list, a
  substring of a string; any other value is no container.\<close>

fun substring :: "string \<Rightarrow> string \<Rightarrow> bool" where
  "substring k [] = (k = [])"
| "substring k (c # cs) = (take (length k) (c # cs) = k \<or> substring k cs)"

definition py_in :: "string \<Rightarrow> json \<Rightarrow> exn + bool" where
  "py_in k obj =
     (case obj of
        JObj kvs \<Rightarrow> Inr (map_of kvs k \<noteq> None)
      | JArr xs \<Rightarrow> Inr (JStr k \<in> set xs)
      | JStr s \<Rightarrow> Inr (substring k s)
      | _ \<Rightarrow> Inl TypeError)"

text \<open>\<^verbatim>\<open>for x in obj\<close>: the elements of a list, the keys of a dict, the characters of a
  string; any other value cannot be iterated.\<close>

definition py_iter :: "json \<Rightarrow> exn + json list" where
  "py_iter obj =
     (case obj of
        JArr xs \<Rightarrow> Inr xs
      | JObj kvs \<Rightarrow> Inr (map (\<lambda>kv. JStr (fst kv)) kvs)
      | JStr s \<Rightarrow> Inr (map (\<lambda>c. JStr [c]) s)
      | _ \<Rightarrow> Inl TypeError)"

text \<open>\<^verbatim>\<open>sep.join(items)\<close>: every item has to be a string.\<close>

fun str_items :: "json list \<Rightarrow> exn + string list" where
  "str_items [] = Inr []"
| "str_items (JStr s # rest) =
     (case str_items rest of Inl e \<Rightarrow> Inl e | Inr ss \<Rightarrow> Inr (s # ss))"
| "str_items (_ # rest) = Inl TypeError"

fun join :: "string \<Rightarrow> string list \<Rightarrow> string" where
  "join sep [] = []"
| "join sep [s] = s"
| "join sep (s # t # rest) = s @ sep @ join sep (t # rest)"

definition py_join :: "string \<Rightarrow> json list \<Rightarrow> exn + string" where
  "py_join sep items =
     (case str_items items of Inl e \<Rightarrow> Inl e | Inr ss \<Rightarrow> Inr (join sep ss))"

text \<open>\<^verbatim>\<open>str(n)\<close> of an integer, and an optional string inside an f-string.\<close>

fun str_nat :: "nat \<Rightarrow> string" where
  "str_nat n =
     (if n < 10 then [''0123456789'' ! n]
      else str_nat (n div 10) @ [''0123456789'' ! (n mod 10)])"

declare str_nat.simps [simp del]

definition str_int :: "int \<Rightarrow> string" where
  "str_int i = (if i < 0 then ''-'' @ str_nat (nat (- i)) else str_nat (nat i))"

definition fmt :: "string option \<Rightarrow> string" where
  "fmt v = (case v of None \<Rightarrow> ''None'' | Some s \<Rightarrow> s)"

section \<open>Requests, responses and the outside world\<close>

text \<open>The request model of \<^verbatim>\<open>POST /query\<close> and its constructor, whose second and
  third arguments may be left out.\<close>

record query_request =
  query :: string
  top_k :: int
  filter' :: "string option"

definition QueryRequest :: "string \<Rightarrow> int option \<Rightarrow> string option option \<Rightarrow> query_request" where
  "QueryRequest q k f =
     \<lparr>query = q,
      top_k = (case k of None \<Rightarrow> 3 | Some n \<Rightarrow> n),
      filter' = (case f of None \<Rightarrow> None | Some v \<Rightarrow> v)\<rparr>"

text \<open>An outbound \<^verbatim>\<open>client.post(url, headers=..., json=..., timeout=...)\<close> and what
  comes back: the call raises, or it returns a response with a status code, a body text and
  the outcome of \<^verbatim>\<open>response.json()\<close> on it.\<close>

record request =
  url :: string
  headers :: "(string \<times> string option) list"
  json :: json
  timeout :: real

record response =
  status_code :: int
  resp_text :: string
  resp_json :: "exn + json"

datatype http_result = Raises exn | Responds response

text \<open>
  The surroundings of one run of the handler: the process environment read by
  \<^verbatim>\<open>os.getenv\<close>, the two remote services, and the text \<^verbatim>\<open>str(e)\<close> of the
  exceptions whose wording belongs to the interpreter or a library.
\<close>

record env =
  environ :: "string \<Rightarrow> string option"
  search_service :: "request \<Rightarrow> http_result"
  generation_service :: "request \<Rightarrow> http_result"
  wording :: "exn \<Rightarrow> string"

definition AZURE_SEARCH_ENDPOINT :: "env \<Rightarrow> string option" where
  "AZURE_SEARCH_ENDPOINT E = environ E ''AZURE_SEARCH_ENDPOINT''"

definition AZURE_SEARCH_KEY :: "env \<Rightarrow> string option" where
  "AZURE_SEARCH_KEY E = environ E ''AZURE_SEARCH_KEY''"

definition AZURE_SEARCH_INDEX :: "env \<Rightarrow> string option" where
  "AZURE_SEARCH_INDEX E = environ E ''AZURE_SEARCH_INDEX''"

definition AZURE_OPENAI_ENDPOINT :: "env \<Rightarrow> string option" where
  "AZURE_OPENAI_ENDPOINT E = environ E ''AZURE_OPENAI_ENDPOINT''"

definition AZURE_OPENAI_KEY :: "env \<Rightarrow> string option" where
  "AZURE_OPENAI_KEY E = environ E ''AZURE_OPENAI_KEY''"

definition AZURE_OPENAI_DEPLOYMENT :: "env \<Rightarrow> string" where
  "AZURE_OPENAI_DEPLOYMENT E =
     (case environ E ''AZURE_OPENAI_DEPLOYMENT'' of None \<Rightarrow> ''gpt-4o'' | Some v \<Rightarrow> v)"

text \<open>\<^verbatim>\<open>str(e)\<close>: an \<open>HTTPException\<close> prints as its status code, a colon, a blank
  and its detail (the \<^verbatim>\<open>__str__\<close> of Starlette's class, which FastAPI's extends); the text
  of any other exception is the wording the surroundings give it.\<close>

definition exn_str :: "env \<Rightarrow> exn \<Rightarrow> string" where
  "exn_str E e =
     (case e of
        HTTPException code detail \<Rightarrow> str_int code @ '': '' @ detail
      | _ \<Rightarrow> wording E e)"

text \<open>What a run leaves behind: the outbound calls it made and the lines it logged, both
  in order.\<close>

datatype call = SearchCall request | GenerationCall request

record world =
  calls :: "call list"
  logged :: "string list"

definition post :: "call \<Rightarrow> world \<Rightarrow> world" where
  "post c w = w\<lparr>calls := calls w @ [c]\<rparr>"

definition logger_error :: "string \<Rightarrow> world \<Rightarrow> world" where
  "logger_error line w = w\<lparr>logged := logged w @ [line]\<rparr>"

section \<open>The Retriever: \<^verbatim>\<open>search_documents\<close>\<close>

definition search_body :: "string \<Rightarrow> int \<Rightarrow> string option \<Rightarrow> dict" where
  "search_body q k filter_param =
     (let body =
        [(''search'', JStr q),
         (''queryType'', JStr ''semantic''),
         (''vectorQueries'',
            JArr [JObj [(''kind'', JStr ''text''),
                        (''text'', JStr q),
                        (''fields'', JStr ''text_vector''),
                        (''k'', JInt k)]]),
         (''top'', JInt k)]
      in case filter_param of
           None \<Rightarrow> body
         | Some f \<Rightarrow> if f = [] then body else body @ [(''filter'', JStr f)])"

definition search_request :: "env \<Rightarrow> string \<Rightarrow> int \<Rightarrow> string option \<Rightarrow> request" where
  "search_request E q k filter_param =
     \<lparr>url = fmt (AZURE_SEARCH_ENDPOINT E) @ ''/indexes/'' @ fmt (AZURE_SEARCH_INDEX E)
              @ ''/docs/search?api-version=2023-10-01-preview'',
      headers = [(''Content-Type'', Some ''application/json''),
                 (''api-key'', AZURE_SEARCH_KEY E)],
      json = JObj (search_body q k filter_param),
      timeout = 30\<rparr>"

text \<open>The body of the \<^verbatim>\<open>try\<close>, then the function with its \<^verbatim>\<open>except\<close> clause,
  which logs the exception and raises it again.\<close>

definition search_documents_try ::
  "env \<Rightarrow> string \<Rightarrow> int \<Rightarrow> string option \<Rightarrow> world \<Rightarrow> (exn + json) \<times> world" where
  "search_documents_try E q k filter_param w =
     (let req = search_request E q k filter_param;
          w1 = post (SearchCall req) w
      in case search_service E req of
           Raises e \<Rightarrow> (Inl e, w1)
         | Responds r \<Rightarrow>
             if status_code r \<noteq> 200 then
               (Inl (HTTPException (status_code r) (resp_text r)),
                logger_error (''Search API error: '' @ str_int (status_code r) @ '' '' @ resp_text r) w1)
             else
               (case resp_json r of
                  Inl e \<Rightarrow> (Inl e, w1)
                | Inr results \<Rightarrow> (py_get results ''value'' (JArr []), w1)))"

definition search_documents ::
  "env \<Rightarrow> string \<Rightarrow> int \<Rightarrow> string option \<Rightarrow> world \<Rightarrow> (exn + json) \<times> world" where
  "search_documents E q k filter_param w =
     (case search_documents_try E q k filter_param w of
        (Inl e, w') \<Rightarrow> (Inl e, logger_error (''Error searching documents: '' @ exn_str E e) w')
      | (Inr v, w') \<Rightarrow> (Inr v, w'))"

section \<open>The Answerer: \<^verbatim>\<open>generate_answer\<close>\<close>

text \<open>The source entry built for one search result.\<close>

definition make_source :: "json \<Rightarrow> exn + dict" where
  "make_source result =
     (case py_get result ''title'' (JStr ''Unknown Document'') of
        Inl e \<Rightarrow> Inl e
      | Inr title \<Rightarrow>
     (case py_get result ''url'' (JStr []) of
        Inl e \<Rightarrow> Inl e
      | Inr link \<Rightarrow>
     (case py_get result ''id'' (JStr []) of
        Inl e \<Rightarrow> Inl e
      | Inr chunk_id \<Rightarrow>
     (case py_get result ''@search.score'' (JInt 0) of
        Inl e \<Rightarrow> Inl e
      | Inr score \<Rightarrow>
          Inr [(''title'', title), (''url'', link), (''chunk_id'', chunk_id),
               (''score'', score)]))))"

text \<open>The \<^verbatim>\<open>for result in search_results\<close> loop, with its two accumulators.\<close>

fun collect :: "json list \<Rightarrow> json list \<Rightarrow> dict list \<Rightarrow> exn + (json list \<times> dict list)" where
  "collect [] context_chunks srcs = Inr (context_chunks, srcs)"
| "collect (result # rest) context_chunks srcs =
     (case py_in ''chunk'' result of
        Inl e \<Rightarrow> Inl e
      | Inr present \<Rightarrow>
          (case (if present
                 then (case py_getitem result (StrKey ''chunk'') of
                         Inl e \<Rightarrow> Inl e
                       | Inr c \<Rightarrow> Inr (context_chunks @ [c]))
                 else Inr context_chunks) of
             Inl e \<Rightarrow> Inl e
           | Inr context_chunks' \<Rightarrow>
               (case make_source result of
                  Inl e \<Rightarrow> Inl e
                | Inr source \<Rightarrow> collect rest context_chunks' (srcs @ [source]))))"

text \<open>The two messages of the prompt. Every line of the triple-quoted literals after
  the first starts with the sixteen blanks of the source's indentation.\<close>

definition nl :: string where
  "nl = [CHR 0x0A]"

definition ind :: string where
  "ind = replicate 16 CHR '' ''"

definition system_content :: string where
  "system_content =
     ''You are a helpful assistant that provides information based on the context provided. '' @ nl
     @ ind @ ''Follow these guidelines:'' @ nl
     @ ind @ ''1. Answer ONLY based on provided context'' @ nl
     @ ind @ ''2. If unsure, say '' @ [CHR 0x22] @ ''I don'' @ [CHR 0x27]
           @ ''t have that information'' @ [CHR 0x22] @ nl
     @ ind @ ''3. Cite the source document name when possible'' @ nl
     @ ind @ ''4. Be concise but complete'' @ nl
     @ ind @ ''5. Use bullet points for lists'' @ nl
     @ ind @ ''6. Do not hallucinate or make up information'' @ nl
     @ ind"

definition user_content :: "string \<Rightarrow> string \<Rightarrow> string" where
  "user_content context q =
     ''Context:'' @ nl
     @ ind @ context @ nl
     @ ind @ nl
     @ ind @ ''Question: '' @ q @ nl
     @ ind @ nl
     @ ind @ ''Instructions:'' @ nl
     @ ind @ ''- Provide a direct answer'' @ nl
     @ ind @ ''- Cite the relevant document when possible'' @ nl
     @ ind @ ''- If multiple documents apply, summarize each'' @ nl
     @ ind"

definition messages :: "string \<Rightarrow> string \<Rightarrow> json" where
  "messages context q =
     JArr [JObj [(''role'', JStr ''system''), (''content'', JStr system_content)],
           JObj [(''role'', JStr ''user''), (''content'', JStr (user_content context q))]]"

definition openai_body :: "env \<Rightarrow> string \<Rightarrow> string \<Rightarrow> dict" where
  "openai_body E context q =
     [(''messages'', messages context q),
      (''model'', JStr (AZURE_OPENAI_DEPLOYMENT E)),
      (''temperature'', JFloat 0.7),
      (''max_tokens'', JInt 800)]"

definition openai_request :: "env \<Rightarrow> string \<Rightarrow> string \<Rightarrow> request" where
  "openai_request E context q =
     \<lparr>url = fmt (AZURE_OPENAI_ENDPOINT E) @ ''/openai/deployments/''
              @ AZURE_OPENAI_DEPLOYMENT E @ ''/chat/completions?api-version=2023-05-15'',
      headers = [(''Content-Type'', Some ''application/json''),
                 (''api-key'', AZURE_OPENAI_KEY E)],
      json = JObj (openai_body E context q),
      timeout = 60\<rparr>"

text \<open>The answer is \<^verbatim>\<open>result["choices"][0]["message"]["content"]\<close>.\<close>

definition extract_answer :: "json \<Rightarrow> exn + json" where
  "extract_answer result =
     (case py_getitem result (StrKey ''choices'') of
        Inl e \<Rightarrow> Inl e
      | Inr choices \<Rightarrow>
     (case py_getitem choices (IntKey 0) of
        Inl e \<Rightarrow> Inl e
      | Inr choice \<Rightarrow>
     (case py_getitem choice (StrKey ''message'') of
        Inl e \<Rightarrow> Inl e
      | Inr message \<Rightarrow> py_getitem message (StrKey ''content''))))"

text \<open>The first half of the \<^verbatim>\<open>try\<close> body: the loop over the search results and the
  context block joined from the chunks it gathered.\<close>

definition build_context :: "json \<Rightarrow> exn + string \<times> dict list" where
  "build_context search_results =
     (case py_iter search_results of
        Inl e \<Rightarrow> Inl e
      | Inr results \<Rightarrow>
     (case collect results [] [] of
        Inl e \<Rightarrow> Inl e
      | Inr (context_chunks, srcs) \<Rightarrow>
     (case py_join (nl @ nl) context_chunks of
        Inl e \<Rightarrow> Inl e
      | Inr context \<Rightarrow> Inr (context, srcs))))"

text \<open>The whole \<^verbatim>\<open>try\<close> body, then the function with its \<^verbatim>\<open>except\<close> clause.\<close>

definition generate_answer_try ::
  "env \<Rightarrow> string \<Rightarrow> json \<Rightarrow> world \<Rightarrow> (exn + json \<times> dict list) \<times> world" where
  "generate_answer_try E q search_results w =
     (case build_context search_results of
        Inl e \<Rightarrow> (Inl e, w)
      | Inr (context, srcs) \<Rightarrow>
          (let req = openai_request E context q;
               w1 = post (GenerationCall req) w
           in case generation_service E req of
                Raises e \<Rightarrow> (Inl e, w1)
              | Responds r \<Rightarrow>
                  if status_code r \<noteq> 200 then
                    (Inl (HTTPException (status_code r) (resp_text r)),
                     logger_error
                       (''OpenAI API error: '' @ str_int (status_code r) @ '' '' @ resp_text r) w1)
                  else
                    (case resp_json r of
                       Inl e \<Rightarrow> (Inl e, w1)
                     | Inr result \<Rightarrow>
                         (case extract_answer result of
                            Inl e \<Rightarrow> (Inl e, w1)
                          | Inr a \<Rightarrow> (Inr (a, srcs), w1)))))"

definition generate_answer ::
  "env \<Rightarrow> string \<Rightarrow> json \<Rightarrow> world \<Rightarrow> (exn + json \<times> dict list) \<times> world" where
  "generate_answer E q search_results w =
     (case generate_answer_try E q search_results w of
        (Inl e, w') \<Rightarrow> (Inl e, logger_error (''Error generating answer: '' @ exn_str E e) w')
      | (Inr v, w') \<Rightarrow> (Inr v, w'))"

section \<open>The request handler: \<^verbatim>\<open>query_documents\<close>\<close>

text \<open>The response model. Its constructor validates the fields: \<open>answer\<close> is
  declared \<^verbatim>\<open>str\<close> and takes a string, any other value fails the validation;
  \<open>sources\<close> is declared a list of dicts, which the list built by the loop always is.\<close>

record chat_response =
  answer :: string
  sources :: "dict list"

definition ChatResponse :: "json \<Rightarrow> dict list \<Rightarrow> exn + chat_response" where
  "ChatResponse a srcs =
     (case a of
        JStr s \<Rightarrow> Inr \<lparr>answer = s, sources = srcs\<rparr>
      | _ \<Rightarrow> Inl ValidationError)"

definition query_documents_try ::
  "env \<Rightarrow> query_request \<Rightarrow> world \<Rightarrow> (exn + chat_response) \<times> world" where
  "query_documents_try E request w =
     (case search_documents E (query request) (top_k request) (filter' request) w of
        (Inl e, w1) \<Rightarrow> (Inl e, w1)
      | (Inr search_results, w1) \<Rightarrow>
          (case generate_answer E (query request) search_results w1 of
             (Inl e, w2) \<Rightarrow> (Inl e, w2)
           | (Inr (a, srcs), w2) \<Rightarrow> (ChatResponse a srcs, w2)))"

definition query_documents ::
  "env \<Rightarrow> query_request \<Rightarrow> world \<Rightarrow> (exn + chat_response) \<times> world" where
  "query_documents E request w =
     (case query_documents_try E request w of
        (Inl e, w') \<Rightarrow>
          (Inl (HTTPException 500 (''Error processing query: '' @ exn_str E e)),
           logger_error (''Error processing query: '' @ exn_str E e) w')
      | (Inr r, w') \<Rightarrow> (Inr r, w'))"

section \<open>The specification's side\<close>

text \<open>The Source the specification derives from a retrieved record: each field taken from
  the record, or its default when the record lacks it.\<close>

definition spec_source :: "dict \<Rightarrow> dict" where
  "spec_source r =
     [(''title'', case map_of r ''title'' of Some v \<Rightarrow> v | None \<Rightarrow> JStr ''Unknown Document''),
      (''url'', case map_of r ''url'' of Some v \<Rightarrow> v | None \<Rightarrow> JStr []),
      (''chunk_id'', case map_of r ''id'' of Some v \<Rightarrow> v | None \<Rightarrow> JStr []),
      (''score'', case map_of r ''@search.score'' of Some v \<Rightarrow> v | None \<Rightarrow> JInt 0)]"

text \<open>The \<open>chunk\<close> fields of the records that have one, in the records' order: as values,
  and as texts. \<open>text_chunks\<close> says that every \<open>chunk\<close> field present is a text, as the
  data model has it.\<close>

definition chunk_values :: "dict list \<Rightarrow> json list" where
  "chunk_values recs =
     concat (map (\<lambda>r. case map_of r ''chunk'' of Some v \<Rightarrow> [v] | None \<Rightarrow> []) recs)"

definition chunk_texts :: "dict list \<Rightarrow> string list" where
  "chunk_texts recs =
     concat (map (\<lambda>r. case map_of r ''chunk'' of Some (JStr s) \<Rightarrow> [s] | _ \<Rightarrow> []) recs)"

definition text_chunks :: "dict list \<Rightarrow> bool" where
  "text_chunks recs =
     list_all (\<lambda>r. case map_of r ''chunk'' of
                      None \<Rightarrow> True
                    | Some (JStr s) \<Rightarrow> True
                    | Some _ \<Rightarrow> False) recs"

text \<open>The invariant the data model states for a request.\<close>

definition valid_request :: "query_request \<Rightarrow> bool" where
  "valid_request r = (query r \<noteq> [] \<and> 0 < top_k r)"

text \<open>The content of the message of the first choice, when the payload of the generation
  service has that structure: a dict whose \<open>choices\<close> is a list that starts with a dict,
  whose \<open>message\<close> is a dict with a \<open>content\<close>.\<close>

definition first_choice_content :: "json \<Rightarrow> json option" where
  "first_choice_content payload =
     (case payload of
        JObj kvs \<Rightarrow>
          (case map_of kvs ''choices'' of
             Some (JArr (JObj c # rest)) \<Rightarrow>
               (case map_of c ''message'' of
                  Some (JObj m) \<Rightarrow> map_of m ''content''
                | _ \<Rightarrow> None)
           | _ \<Rightarrow> None)
      | _ \<Rightarrow> None)"

section \<open>Stand-ins for the remote services\<close>

text \<open>A world in which nothing has happened yet, responses with a JSON body, the two
  payload shapes the services document, and surroundings in which each service gives one
  fixed result.\<close>

definition w0 :: world where
  "w0 = \<lparr>calls = [], logged = []\<rparr>"

definition reply :: "int \<Rightarrow> string \<Rightarrow> json \<Rightarrow> http_result" where
  "reply c t j = Responds \<lparr>status_code = c, resp_text = t, resp_json = Inr j\<rparr>"

definition hits :: "json list \<Rightarrow> json" where
  "hits rs = JObj [(''value'', JArr rs)]"

definition completion :: "json \<Rightarrow> json" where
  "completion c = JObj [(''choices'', JArr [JObj [(''message'', JObj [(''content'', c)])]])]"

definition stub_env :: "http_result \<Rightarrow> http_result \<Rightarrow> env" where
  "stub_env s g =
     \<lparr>environ = (\<lambda>name. None),
      search_service = (\<lambda>req. s),
      generation_service = (\<lambda>req. g),
      wording = (\<lambda>e. ''error'')\<rparr>"

definition refund_records :: "dict list" where
  "refund_records =
     [[(''chunk'', JStr ''Refunds are issued within 30 days.''),
       (''title'', JStr ''Refund policy''),
       (''url'', JStr ''https://example.org/refunds''),
       (''id'', JStr ''doc1-0''),
       (''@search.score'', JFloat 0.5)],
      [(''title'', JStr ''FAQ'')]]"

section \<open>The loop over the search results\<close>

lemma make_source_JObj: "make_source (JObj r) = Inr (spec_source r)"
  by (simp add: make_source_def py_get_def spec_source_def)

lemma collect_dicts:
  "collect (map JObj recs) cs ss = Inr (cs @ chunk_values recs, ss @ map spec_source recs)"
proof (induction recs arbitrary: cs ss)
  case Nil
  show ?case by (simp add: chunk_values_def)
next
  case (Cons r recs)
  show ?case
  proof (cases "map_of r ''chunk''")
    case None
    then show ?thesis
      using Cons.IH [of cs "ss @ [spec_source r]"]
      by (simp add: py_in_def make_source_JObj chunk_values_def)
  next
    case (Some v)
    then show ?thesis
      using Cons.IH [of "cs @ [v]" "ss @ [spec_source r]"]
      by (simp add: py_in_def py_getitem_def make_source_JObj chunk_values_def)
  qed
qed

lemma collect_only_dicts:
  "collect xs cs ss = Inr res \<Longrightarrow> \<exists>recs. xs = map JObj recs"
proof (induction xs arbitrary: cs ss)
  case Nil
  show ?case by simp
next
  case (Cons x xs)
  from Cons.prems obtain r where x: "x = JObj r"
    by (cases x) (auto simp: py_in_def py_getitem_def make_source_def py_get_def split: if_splits)
  from Cons.prems x obtain cs' ss' where "collect xs cs' ss' = Inr res"
    by (auto simp: py_in_def py_getitem_def make_source_JObj split: if_splits option.splits sum.splits)
  from Cons.IH [OF this] obtain recs where "xs = map JObj recs" ..
  with x have "x # xs = map JObj (r # recs)" by simp
  then show ?case ..
qed

lemma str_items_texts:
  "text_chunks recs \<Longrightarrow> str_items (chunk_values recs) = Inr (chunk_texts recs)"
proof (induction recs)
  case Nil
  show ?case by (simp add: chunk_values_def chunk_texts_def)
next
  case (Cons r recs)
  then have IH: "str_items (chunk_values recs) = Inr (chunk_texts recs)"
    by (simp add: text_chunks_def)
  from Cons.prems show ?case
    using IH
    by (auto simp: text_chunks_def chunk_values_def chunk_texts_def split: option.splits json.splits)
qed

lemma build_context_dicts:
  "build_context (JArr (map JObj recs)) =
     (case py_join (nl @ nl) (chunk_values recs) of
        Inl e \<Rightarrow> Inl e
      | Inr context \<Rightarrow> Inr (context, map spec_source recs))"
  by (simp add: build_context_def py_iter_def collect_dicts)

lemma build_context_texts:
  "text_chunks recs \<Longrightarrow>
   build_context (JArr (map JObj recs)) = Inr (join (nl @ nl) (chunk_texts recs), map spec_source recs)"
  by (simp add: build_context_dicts py_join_def str_items_texts)

text \<open>A \<open>chunk\<close> field that is no text makes the join, and so the stage, raise.\<close>

lemma str_items_Cons_fails:
  "str_items vs = Inl TypeError \<Longrightarrow> str_items (x # vs) = Inl TypeError"
  by (cases x) simp_all

lemma str_items_non_texts:
  "\<not> text_chunks recs \<Longrightarrow> str_items (chunk_values recs) = Inl TypeError"
proof (induction recs)
  case Nil
  then show ?case by (simp add: text_chunks_def)
next
  case (Cons r recs)
  show ?case
  proof (cases "text_chunks recs")
    case True
    with Cons.prems show ?thesis
      by (auto simp: text_chunks_def chunk_values_def split: option.splits json.splits)
  next
    case False
    then have "str_items (chunk_values recs) = Inl TypeError" by (rule Cons.IH)
    then show ?thesis
      by (auto simp: chunk_values_def str_items_Cons_fails split: option.splits)
  qed
qed

lemma build_context_non_texts:
  "\<not> text_chunks recs \<Longrightarrow> build_context (JArr (map JObj recs)) = Inl TypeError"
  by (simp add: build_context_dicts py_join_def str_items_non_texts)

lemma build_context_sources:
  assumes "build_context v = Inr (context, srcs)"
  shows "\<exists>recs. py_iter v = Inr (map JObj recs) \<and> srcs = map spec_source recs"
proof -
  from assms obtain xs cs where it: "py_iter v = Inr xs" and co: "collect xs [] [] = Inr (cs, srcs)"
    by (auto simp: build_context_def split: sum.splits prod.splits)
  from collect_only_dicts [OF co] obtain recs where xs: "xs = map JObj recs" ..
  with co have "srcs = map spec_source recs" by (simp add: collect_dicts)
  with it xs show ?thesis by blast
qed

section \<open>The three stages, outcome and outbound calls\<close>

lemma search_documents_calls:
  "calls (snd (search_documents E q k f w)) = calls w @ [SearchCall (search_request E q k f)]"
  by (simp add: search_documents_def search_documents_try_def post_def logger_error_def Let_def
           split: http_result.splits sum.splits prod.splits)

lemma search_documents_fst:
  "fst (search_documents E q k f w) =
     (case search_service E (search_request E q k f) of
        Raises e \<Rightarrow> Inl e
      | Responds r \<Rightarrow>
          if status_code r \<noteq> 200 then Inl (HTTPException (status_code r) (resp_text r))
          else (case resp_json r of
                  Inl e \<Rightarrow> Inl e
                | Inr results \<Rightarrow> py_get results ''value'' (JArr [])))"
  by (simp add: search_documents_def search_documents_try_def Let_def
           split: http_result.splits sum.splits prod.splits)

lemma generate_answer_calls:
  "calls (snd (generate_answer E q v w)) =
     (case build_context v of
        Inl e \<Rightarrow> calls w
      | Inr (context, srcs) \<Rightarrow> calls w @ [GenerationCall (openai_request E context q)])"
  by (simp add: generate_answer_def generate_answer_try_def post_def logger_error_def Let_def
           split: http_result.splits sum.splits prod.splits)

lemma generate_answer_fst:
  "fst (generate_answer E q v w) =
     (case build_context v of
        Inl e \<Rightarrow> Inl e
      | Inr (context, srcs) \<Rightarrow>
          (case generation_service E (openai_request E context q) of
             Raises e \<Rightarrow> Inl e
           | Responds r \<Rightarrow>
               if status_code r \<noteq> 200 then Inl (HTTPException (status_code r) (resp_text r))
               else (case resp_json r of
                       Inl e \<Rightarrow> Inl e
                     | Inr result \<Rightarrow>
                         (case extract_answer result of
                            Inl e \<Rightarrow> Inl e
                          | Inr a \<Rightarrow> Inr (a, srcs)))))"
  by (simp add: generate_answer_def generate_answer_try_def Let_def
           split: http_result.splits sum.splits prod.splits)

lemma query_documents_fst:
  "fst (query_documents E request w) =
     (case fst (search_documents E (query request) (top_k request) (filter' request) w) of
        Inl e \<Rightarrow> Inl (HTTPException 500 (''Error processing query: '' @ exn_str E e))
      | Inr v \<Rightarrow>
          (case fst (generate_answer E (query request) v
                       (snd (search_documents E (query request) (top_k request) (filter' request) w))) of
             Inl e \<Rightarrow> Inl (HTTPException 500 (''Error processing query: '' @ exn_str E e))
           | Inr (a, srcs) \<Rightarrow>
               (case ChatResponse a srcs of
                  Inl e \<Rightarrow> Inl (HTTPException 500 (''Error processing query: '' @ exn_str E e))
                | Inr r \<Rightarrow> Inr r)))"
  by (auto simp: query_documents_def query_documents_try_def
           split: sum.splits prod.splits)

lemma query_documents_calls:
  "calls (snd (query_documents E request w)) =
     (case fst (search_documents E (query request) (top_k request) (filter' request) w) of
        Inl e \<Rightarrow> calls (snd (search_documents E (query request) (top_k request) (filter' request) w))
      | Inr v \<Rightarrow>
          calls (snd (generate_answer E (query request) v
                   (snd (search_documents E (query request) (top_k request) (filter' request) w)))))"
  by (auto simp: query_documents_def query_documents_try_def logger_error_def
           split: sum.splits prod.splits)

lemma py_index_0: "py_index xs 0 = (case xs of [] \<Rightarrow> Inl IndexError | x # _ \<Rightarrow> Inr x)"
  by (simp add: py_index_def split: list.splits)

lemma extract_answer_Some:
  "first_choice_content p = Some v \<Longrightarrow> extract_answer p = Inr v"
  by (auto simp: first_choice_content_def extract_answer_def py_getitem_def py_index_0
           split: json.splits option.splits list.splits)

lemma extract_answer_None:
  "first_choice_content p = None \<Longrightarrow> \<exists>e. extract_answer p = Inl e"
  by (auto simp: first_choice_content_def extract_answer_def py_getitem_def py_index_0
           split: json.splits option.splits list.splits)

section \<open>The claims about the Retriever and the sources\<close>

text \<open>
  Claim C6. Whatever the query, \<open>top_k\<close> and filter, the body of the outbound search
  request asks for semantic full-text search on the query and has one text vector query on
  the same query, with \<open>k\<close> and \<open>top\<close> both \<open>top_k\<close>. A filter that is present and
  non-empty is the \<open>filter\<close> field of the body, unchanged; with no filter, or an empty
  one, the body has no \<open>filter\<close> key. That body is what the one search call sends.
\<close>

theorem search_body_hybrid_filter:
  "search_body q k f =
     [(''search'', JStr q),
      (''queryType'', JStr ''semantic''),
      (''vectorQueries'',
         JArr [JObj [(''kind'', JStr ''text''), (''text'', JStr q),
                     (''fields'', JStr ''text_vector''), (''k'', JInt k)]]),
      (''top'', JInt k)]
     @ (case f of None \<Rightarrow> [] | Some s \<Rightarrow> if s = [] then [] else [(''filter'', JStr s)])
   \<and> map_of (search_body q k f) ''filter''
       = (case f of None \<Rightarrow> None | Some s \<Rightarrow> if s = [] then None else Some (JStr s))
   \<and> (''filter'' \<in> set (map fst (search_body q k f))) = (\<exists>s. f = Some s \<and> s \<noteq> [])
   \<and> json (search_request E q k f) = JObj (search_body q k f)
   \<and> calls (snd (search_documents E q k f w)) = calls w @ [SearchCall (search_request E q k f)]"
  by (cases f) (auto simp: search_body_def search_request_def search_documents_calls)

text \<open>
  Claim C9. When the search service answers 200 with a payload that has no \<open>value\<close> key,
  \<open>search_documents\<close> returns the empty list, as for no matches: nothing is raised and
  nothing is logged, the call is all that happened.
\<close>

theorem search_documents_missing_value:
  assumes "search_service E (search_request E q k f) = Responds r"
    and "status_code r = 200"
    and "resp_json r = Inr (JObj kvs)"
    and "map_of kvs ''value'' = None"
  shows "search_documents E q k f w = (Inr (JArr []), post (SearchCall (search_request E q k f)) w)"
  using assms
  by (simp add: search_documents_def search_documents_try_def py_get_def Let_def)

theorem search_documents_missing_value_witness:
  "search_service (stub_env (reply 200 ''{}'' (JObj [])) (Raises IndexError))
     (search_request (stub_env (reply 200 ''{}'' (JObj [])) (Raises IndexError)) ''y'' 3 None)
     = reply 200 ''{}'' (JObj [])
   \<and> search_documents (stub_env (reply 200 ''{}'' (JObj [])) (Raises IndexError)) ''y'' 3 None w0
     = (Inr (JArr []),
        post (SearchCall
               (search_request (stub_env (reply 200 ''{}'' (JObj [])) (Raises IndexError)) ''y'' 3 None))
          w0)"
  using search_documents_missing_value
    [of "stub_env (reply 200 ''{}'' (JObj [])) (Raises IndexError)" "''y''" 3 None
        "\<lparr>status_code = 200, resp_text = ''{}'', resp_json = Inr (JObj [])\<rparr>" "[]" w0]
  by (simp add: stub_env_def reply_def)

text \<open>
  Claim C2. For every list of retrieved records the loop of \<open>generate_answer\<close> succeeds
  and its sources are the records' Sources, one for one in the same order, so there are as
  many sources as records. Each Source has the record's \<open>title\<close> or
  \<open>Unknown Document\<close>, its \<open>url\<close> or the empty string, as \<open>chunk_id\<close> its
  \<open>id\<close> or the empty string, and as \<open>score\<close> its \<open>@search.score\<close> or 0. Whenever
  \<open>generate_answer\<close> returns, these are the sources it returns.
\<close>

theorem generate_answer_sources:
  "make_source (JObj r) = Inr (spec_source r)
   \<and> map_of (spec_source r) ''title''
       = Some (case map_of r ''title'' of Some v \<Rightarrow> v | None \<Rightarrow> JStr ''Unknown Document'')
   \<and> map_of (spec_source r) ''url''
       = Some (case map_of r ''url'' of Some v \<Rightarrow> v | None \<Rightarrow> JStr [])
   \<and> map_of (spec_source r) ''chunk_id''
       = Some (case map_of r ''id'' of Some v \<Rightarrow> v | None \<Rightarrow> JStr [])
   \<and> map_of (spec_source r) ''score''
       = Some (case map_of r ''@search.score'' of Some v \<Rightarrow> v | None \<Rightarrow> JInt 0)
   \<and> collect (map JObj recs) [] [] = Inr (chunk_values recs, map spec_source recs)
   \<and> length (map spec_source recs) = length recs
   \<and> (fst (generate_answer E q (JArr (map JObj recs)) w) = Inr (a, srcs)
        \<longrightarrow> srcs = map spec_source recs \<and> length srcs = length recs)"
proof -
  have "fst (generate_answer E q (JArr (map JObj recs)) w) = Inr (a, srcs)
        \<longrightarrow> srcs = map spec_source recs \<and> length srcs = length recs"
    by (auto simp: generate_answer_fst build_context_dicts
             split: sum.splits http_result.splits if_splits)
  then show ?thesis
    by (simp add: make_source_JObj collect_dicts) (simp add: spec_source_def)
qed

theorem generate_answer_sources_witness:
  "fst (generate_answer (stub_env (Raises IndexError) (reply 200 [] (completion (JStr ''30 days''))))
          ''What is the refund policy?'' (JArr (map JObj refund_records)) w0)
     = Inr (JStr ''30 days'',
            [[(''title'', JStr ''Refund policy''), (''url'', JStr ''https://example.org/refunds''),
              (''chunk_id'', JStr ''doc1-0''), (''score'', JFloat 0.5)],
             [(''title'', JStr ''FAQ''), (''url'', JStr []), (''chunk_id'', JStr []),
              (''score'', JInt 0)]])
   \<and> map spec_source refund_records
     = [[(''title'', JStr ''Refund policy''), (''url'', JStr ''https://example.org/refunds''),
         (''chunk_id'', JStr ''doc1-0''), (''score'', JFloat 0.5)],
        [(''title'', JStr ''FAQ''), (''url'', JStr []), (''chunk_id'', JStr []),
         (''score'', JInt 0)]]"
  using generate_answer_sources
    [of "[]" refund_records
        "stub_env (Raises IndexError) (reply 200 [] (completion (JStr ''30 days'')))"
        "''What is the refund policy?''" w0 "JStr ''30 days''" "map spec_source refund_records"]
  by (simp add: generate_answer_fst build_context_def py_iter_def py_in_def make_source_def chunk_values_def
        py_get_def py_join_def refund_records_def stub_env_def reply_def completion_def
        extract_answer_def py_getitem_def py_index_0 spec_source_def)

section \<open>The claims about the context block and upstream failures\<close>

text \<open>
  Claim C3, as stated, holds for every list of retrieved records. A record whose
  \<open>chunk\<close> field is present but is no text (here \<^verbatim>\<open>null\<close>) contributes no text:
  the join of the chunks raises, so no context block is built, no Source is returned and the
  generation call is not made.
\<close>

theorem null_chunk_raises_counterexample:
  "map_of [(''chunk'', JNull), (''title'', JStr ''FAQ'')] ''chunk'' = Some JNull
   \<and> build_context (JArr (map JObj [[(''chunk'', JNull), (''title'', JStr ''FAQ'')]]))
       = Inl TypeError
   \<and> generate_answer
         (stub_env (reply 200 [] (hits [])) (reply 200 [] (completion (JStr ''unused''))))
         ''q'' (JArr (map JObj [[(''chunk'', JNull), (''title'', JStr ''FAQ'')]])) w0
       = (Inl TypeError, \<lparr>calls = [], logged = [''Error generating answer: error'']\<rparr>)"
  by (simp add: build_context_def py_iter_def py_in_def py_getitem_def make_source_def py_get_def
        py_join_def generate_answer_def generate_answer_try_def logger_error_def exn_str_def
        stub_env_def w0_def)

text \<open>
  Claim C3, amended. For every list of retrieved records whose \<open>chunk\<close> fields, where
  present, are texts, the context block that \<open>generate_answer\<close> builds is the chunk
  texts of the records that have a \<open>chunk\<close> field, in the records' order, joined by two
  line feeds, next to one Source for every record, with or without a chunk. When no record
  has a \<open>chunk\<close> field the context block is the empty string. In either case the
  generation call is made, with that context.
\<close>

theorem build_context_chunks:
  assumes "text_chunks recs"
  shows "build_context (JArr (map JObj recs))
           = Inr (join (nl @ nl) (chunk_texts recs), map spec_source recs)
       \<and> nl @ nl = [CHR 0x0A, CHR 0x0A]
       \<and> ((\<forall>r \<in> set recs. map_of r ''chunk'' = None)
            \<longrightarrow> build_context (JArr (map JObj recs)) = Inr ([], map spec_source recs))
       \<and> calls (snd (generate_answer E q (JArr (map JObj recs)) w))
           = calls w @ [GenerationCall (openai_request E (join (nl @ nl) (chunk_texts recs)) q)]"
proof -
  have bc: "build_context (JArr (map JObj recs))
              = Inr (join (nl @ nl) (chunk_texts recs), map spec_source recs)"
    using assms by (rule build_context_texts)
  have none: "chunk_texts recs = []" if "\<forall>r \<in> set recs. map_of r ''chunk'' = None"
    using that by (simp add: chunk_texts_def)
  show ?thesis
    using bc none by (simp add: generate_answer_calls nl_def)
qed

theorem build_context_chunks_witness:
  "text_chunks [[(''chunk'', JStr ''a'')], [(''title'', JStr ''T'')], [(''chunk'', JStr ''b'')]]
   \<and> build_context
         (JArr (map JObj [[(''chunk'', JStr ''a'')], [(''title'', JStr ''T'')], [(''chunk'', JStr ''b'')]]))
       = Inr ([CHR ''a'', CHR 0x0A, CHR 0x0A, CHR ''b''],
              map spec_source [[(''chunk'', JStr ''a'')], [(''title'', JStr ''T'')], [(''chunk'', JStr ''b'')]])
   \<and> text_chunks [[(''title'', JStr ''FAQ'')]]
   \<and> map_of [(''title'', JStr ''FAQ'')] ''chunk'' = None
   \<and> build_context (JArr (map JObj [[(''title'', JStr ''FAQ'')]]))
       = Inr ([], map spec_source [[(''title'', JStr ''FAQ'')]])
   \<and> calls (snd (generate_answer (stub_env (Raises IndexError) (Raises IndexError)) ''q''
                    (JArr (map JObj [[(''title'', JStr ''FAQ'')]])) w0))
       = [GenerationCall (openai_request (stub_env (Raises IndexError) (Raises IndexError)) [] ''q'')]"
proof -
  have t2: "text_chunks [[(''chunk'', JStr ''a'')], [(''title'', JStr ''T'')], [(''chunk'', JStr ''b'')]]"
    by (simp add: text_chunks_def)
  have t3: "text_chunks [[(''title'', JStr ''FAQ'')]]"
    by (simp add: text_chunks_def)
  have n3: "\<forall>r \<in> set [[(''title'', JStr ''FAQ'')]]. map_of r ''chunk'' = None"
    by simp
  have c2: "join (nl @ nl)
              (chunk_texts [[(''chunk'', JStr ''a'')], [(''title'', JStr ''T'')], [(''chunk'', JStr ''b'')]])
            = [CHR ''a'', CHR 0x0A, CHR 0x0A, CHR ''b'']"
    by (simp add: chunk_texts_def nl_def)
  have c3: "join (nl @ nl) (chunk_texts [[(''title'', JStr ''FAQ'')]]) = []"
    by (simp add: chunk_texts_def)
  note r2 = build_context_chunks
    [OF t2, of "stub_env (Raises IndexError) (Raises IndexError)" "''q''" w0, THEN conjunct1]
  note r3 = build_context_chunks
    [OF t3, of "stub_env (Raises IndexError) (Raises IndexError)" "''q''" w0]
  from r3 n3 have b3: "build_context (JArr (map JObj [[(''title'', JStr ''FAQ'')]]))
       = Inr ([], map spec_source [[(''title'', JStr ''FAQ'')]])"
    by blast
  from r3 have g3: "calls (snd (generate_answer (stub_env (Raises IndexError) (Raises IndexError)) ''q''
                    (JArr (map JObj [[(''title'', JStr ''FAQ'')]])) w0))
       = [GenerationCall (openai_request (stub_env (Raises IndexError) (Raises IndexError)) [] ''q'')]"
    unfolding c3 by (simp add: w0_def)
  from r2 have b2: "build_context
         (JArr (map JObj [[(''chunk'', JStr ''a'')], [(''title'', JStr ''T'')], [(''chunk'', JStr ''b'')]]))
       = Inr ([CHR ''a'', CHR 0x0A, CHR 0x0A, CHR ''b''],
              map spec_source [[(''chunk'', JStr ''a'')], [(''title'', JStr ''T'')], [(''chunk'', JStr ''b'')]])"
    unfolding c2 .
  have m3: "map_of [(''title'', JStr ''FAQ'')] ''chunk'' = None"
    by simp
  from t2 b2 t3 m3 b3 g3 show ?thesis
    by blast
qed

text \<open>
  Claim C5. On a response whose status is not 200, and so on every non-success status, the
  stage that made the call raises an error carrying the upstream status code and body:
  \<open>search_documents\<close> (there is no partial result) and \<open>generate_answer\<close> alike.
  Neither stage recovers: each logs the upstream error, logs the exception and raises it
  again.
\<close>

theorem upstream_status_raises:
  "(search_service E (search_request E q k f) = Responds r \<and> status_code r \<noteq> 200
      \<longrightarrow> search_documents E q k f w
           = (Inl (HTTPException (status_code r) (resp_text r)),
              logger_error
                (''Error searching documents: '' @ str_int (status_code r) @ '': '' @ resp_text r)
                (logger_error
                   (''Search API error: '' @ str_int (status_code r) @ '' '' @ resp_text r)
                   (post (SearchCall (search_request E q k f)) w))))
   \<and> (build_context v = Inr (context, srcs)
       \<and> generation_service E (openai_request E context q) = Responds r' \<and> status_code r' \<noteq> 200
      \<longrightarrow> generate_answer E q v w
           = (Inl (HTTPException (status_code r') (resp_text r')),
              logger_error
                (''Error generating answer: '' @ str_int (status_code r') @ '': '' @ resp_text r')
                (logger_error
                   (''OpenAI API error: '' @ str_int (status_code r') @ '' '' @ resp_text r')
                   (post (GenerationCall (openai_request E context q)) w))))"
  by (simp add: search_documents_def search_documents_try_def generate_answer_def
        generate_answer_try_def exn_str_def Let_def)

theorem upstream_status_raises_witness:
  "fst (search_documents (stub_env (reply 503 ''Service Unavailable'' JNull) (Raises IndexError))
          ''x'' 3 None w0)
     = Inl (HTTPException 503 ''Service Unavailable'')
   \<and> logged (snd (search_documents
                     (stub_env (reply 503 ''Service Unavailable'' JNull) (Raises IndexError))
                     ''x'' 3 None w0))
     = [''Search API error: 503 Service Unavailable'',
        ''Error searching documents: 503: Service Unavailable'']
   \<and> fst (generate_answer (stub_env (Raises IndexError) (reply 429 ''Too Many Requests'' JNull))
            ''x'' (JArr []) w0)
     = Inl (HTTPException 429 ''Too Many Requests'')
   \<and> logged (snd (generate_answer
                     (stub_env (Raises IndexError) (reply 429 ''Too Many Requests'' JNull))
                     ''x'' (JArr []) w0))
     = [''OpenAI API error: 429 Too Many Requests'',
        ''Error generating answer: 429: Too Many Requests'']"
proof -
  have bc: "build_context (JArr []) = Inr ([], [])"
    by (simp add: build_context_def py_iter_def py_join_def)
  show ?thesis
    using upstream_status_raises
      [of "stub_env (reply 503 ''Service Unavailable'' JNull) (Raises IndexError)" "''x''" 3 None
          "\<lparr>status_code = 503, resp_text = ''Service Unavailable'', resp_json = Inr JNull\<rparr>" w0
          "JArr []" "[]" "[]" "\<lparr>status_code = 503, resp_text = [], resp_json = Inr JNull\<rparr>"]
      upstream_status_raises
      [of "stub_env (Raises IndexError) (reply 429 ''Too Many Requests'' JNull)" "''x''" 3 None
          "\<lparr>status_code = 503, resp_text = [], resp_json = Inr JNull\<rparr>" w0
          "JArr []" "[]" "[]"
          "\<lparr>status_code = 429, resp_text = ''Too Many Requests'', resp_json = Inr JNull\<rparr>"]
      bc
    by (simp add: stub_env_def reply_def logger_error_def post_def w0_def str_int_def
          str_nat.simps)
qed

section \<open>The claims about the order of the two calls\<close>

text \<open>
  Claim C4. When the search service answers with a status other than 200, the handler
  returns the error response, whose message holds the upstream status code and body, and
  the search call is the only outbound call of the run. In every run the outbound calls are
  the search call alone, or the search call followed by one generation call, the latter only
  when the search service answered 200.
\<close>

theorem search_failure_skips_generation:
  "(search_service E (search_request E (query request) (top_k request) (filter' request))
        = Responds r \<and> status_code r \<noteq> 200
      \<longrightarrow> fst (query_documents E request w)
            = Inl (HTTPException 500
                     (''Error processing query: '' @ str_int (status_code r) @ '': '' @ resp_text r))
        \<and> calls (snd (query_documents E request w))
            = calls w @ [SearchCall (search_request E (query request) (top_k request) (filter' request))])
   \<and> (calls (snd (query_documents E request w))
         = calls w @ [SearchCall (search_request E (query request) (top_k request) (filter' request))]
       \<or> (\<exists>r0 g. search_service E (search_request E (query request) (top_k request) (filter' request))
                     = Responds r0
                 \<and> status_code r0 = 200
                 \<and> calls (snd (query_documents E request w))
                     = calls w @ [SearchCall (search_request E (query request) (top_k request)
                                                (filter' request)),
                                  GenerationCall g]))"
proof -
  let ?sreq = "search_request E (query request) (top_k request) (filter' request)"
  let ?sd = "search_documents E (query request) (top_k request) (filter' request) w"
  have failing: "fst (query_documents E request w)
            = Inl (HTTPException 500
                     (''Error processing query: '' @ str_int (status_code r) @ '': '' @ resp_text r))
        \<and> calls (snd (query_documents E request w)) = calls w @ [SearchCall ?sreq]"
    if "search_service E ?sreq = Responds r" and "status_code r \<noteq> 200"
    using that
    by (simp add: query_documents_fst query_documents_calls search_documents_fst
          search_documents_calls exn_str_def)
  have order: "calls (snd (query_documents E request w)) = calls w @ [SearchCall ?sreq]
       \<or> (\<exists>r0 g. search_service E ?sreq = Responds r0 \<and> status_code r0 = 200
                 \<and> calls (snd (query_documents E request w))
                     = calls w @ [SearchCall ?sreq, GenerationCall g])"
  proof (cases "fst ?sd")
    case (Inl e)
    then show ?thesis
      by (simp add: query_documents_calls search_documents_calls)
  next
    case (Inr v)
    then obtain r0 where "search_service E ?sreq = Responds r0" and "status_code r0 = 200"
      by (auto simp: search_documents_fst split: http_result.splits if_splits)
    with Inr show ?thesis
      by (auto simp: query_documents_calls generate_answer_calls search_documents_calls
               split: sum.splits)
  qed
  from failing order show ?thesis by blast
qed

theorem search_failure_skips_generation_witness:
  "search_service
     (stub_env (reply 503 ''Service Unavailable'' JNull) (reply 200 [] (completion (JStr ''unused''))))
     (search_request
        (stub_env (reply 503 ''Service Unavailable'' JNull) (reply 200 [] (completion (JStr ''unused''))))
        (query (QueryRequest ''x'' None None)) (top_k (QueryRequest ''x'' None None))
        (filter' (QueryRequest ''x'' None None)))
     = reply 503 ''Service Unavailable'' JNull
   \<and> fst (query_documents
            (stub_env (reply 503 ''Service Unavailable'' JNull) (reply 200 [] (completion (JStr ''unused''))))
            (QueryRequest ''x'' None None) w0)
     = Inl (HTTPException 500 ''Error processing query: 503: Service Unavailable'')
   \<and> calls (snd (query_documents
            (stub_env (reply 503 ''Service Unavailable'' JNull) (reply 200 [] (completion (JStr ''unused''))))
            (QueryRequest ''x'' None None) w0))
     = [SearchCall
          (search_request
             (stub_env (reply 503 ''Service Unavailable'' JNull)
                (reply 200 [] (completion (JStr ''unused''))))
             ''x'' 3 None)]"
  using search_failure_skips_generation
    [of "stub_env (reply 503 ''Service Unavailable'' JNull) (reply 200 [] (completion (JStr ''unused'')))"
        "QueryRequest ''x'' None None"
        "\<lparr>status_code = 503, resp_text = ''Service Unavailable'', resp_json = Inr JNull\<rparr>" w0]
  by (simp add: stub_env_def reply_def QueryRequest_def w0_def str_int_def str_nat.simps)

text \<open>
  Claim C7. When \<open>search_documents\<close> returns no records, the handler still makes the
  generation call, once, with the empty string as the context block; and when that call
  answers 200 with a payload whose first choice has a text content, the handler returns that
  text as the answer with an empty list of sources.
\<close>

theorem empty_retrieval_still_generates:
  assumes "search_documents E (query request) (top_k request) (filter' request) w
             = (Inr (JArr []), w1)"
  shows "calls (snd (query_documents E request w))
           = calls w @ [SearchCall (search_request E (query request) (top_k request) (filter' request)),
                        GenerationCall (openai_request E [] (query request))]
       \<and> (generation_service E (openai_request E [] (query request)) = Responds r
            \<and> status_code r = 200 \<and> resp_json r = Inr payload
            \<and> extract_answer payload = Inr (JStr a)
          \<longrightarrow> fst (query_documents E request w) = Inr \<lparr>answer = a, sources = []\<rparr>)"
proof -
  have bc: "build_context (JArr []) = Inr ([], [])"
    by (simp add: build_context_def py_iter_def py_join_def)
  from assms have f: "fst (search_documents E (query request) (top_k request) (filter' request) w)
                        = Inr (JArr [])"
    by simp
  have c: "calls w1 = calls w @ [SearchCall (search_request E (query request) (top_k request)
                                                (filter' request))]"
    using search_documents_calls [of E "query request" "top_k request" "filter' request" w] assms
    by simp
  show ?thesis
    using f c assms bc
    by (simp add: query_documents_calls query_documents_fst generate_answer_calls
          generate_answer_fst ChatResponse_def)
qed

theorem empty_retrieval_still_generates_witness:
  "search_documents (stub_env (reply 200 [] (hits [])) (reply 200 [] (completion (JStr ''I do not know''))))
       ''y'' 3 None w0
     = (Inr (JArr []),
        post (SearchCall
                (search_request
                   (stub_env (reply 200 [] (hits [])) (reply 200 [] (completion (JStr ''I do not know''))))
                   ''y'' 3 None)) w0)
   \<and> extract_answer (completion (JStr ''I do not know'')) = Inr (JStr ''I do not know'')
   \<and> fst (query_documents
            (stub_env (reply 200 [] (hits [])) (reply 200 [] (completion (JStr ''I do not know''))))
            (QueryRequest ''y'' None None) w0)
     = Inr \<lparr>answer = ''I do not know'', sources = []\<rparr>
   \<and> calls (snd (query_documents
            (stub_env (reply 200 [] (hits [])) (reply 200 [] (completion (JStr ''I do not know''))))
            (QueryRequest ''y'' None None) w0))
     = [SearchCall
          (search_request
             (stub_env (reply 200 [] (hits [])) (reply 200 [] (completion (JStr ''I do not know''))))
             ''y'' 3 None),
        GenerationCall
          (openai_request
             (stub_env (reply 200 [] (hits [])) (reply 200 [] (completion (JStr ''I do not know''))))
             [] ''y'')]"
proof -
  let ?E = "stub_env (reply 200 [] (hits [])) (reply 200 [] (completion (JStr ''I do not know'')))"
  have sd: "search_documents ?E (query (QueryRequest ''y'' None None))
              (top_k (QueryRequest ''y'' None None)) (filter' (QueryRequest ''y'' None None)) w0
            = (Inr (JArr []), post (SearchCall (search_request ?E ''y'' 3 None)) w0)"
    by (simp add: search_documents_def search_documents_try_def stub_env_def reply_def hits_def
          py_get_def QueryRequest_def Let_def)
  have ex: "extract_answer (completion (JStr ''I do not know'')) = Inr (JStr ''I do not know'')"
    by (simp add: extract_answer_def completion_def py_getitem_def py_index_0)
  have gs: "generation_service ?E (openai_request ?E [] (query (QueryRequest ''y'' None None)))
            = Responds \<lparr>status_code = 200, resp_text = [],
                         resp_json = Inr (completion (JStr ''I do not know''))\<rparr>"
    by (simp add: stub_env_def reply_def)
  from empty_retrieval_still_generates
    [OF sd, of "\<lparr>status_code = 200, resp_text = [],
                   resp_json = Inr (completion (JStr ''I do not know''))\<rparr>"
        "completion (JStr ''I do not know'')" "''I do not know''"] gs ex sd
  show ?thesis
    by (simp add: QueryRequest_def w0_def)
qed

section \<open>The claims about the handler's response\<close>

text \<open>
  Claim C1, as stated, bounds the number of sources by \<open>top_k\<close>. The handler does not:
  with \<open>top_k = 1\<close> and a search service that answers with two records, the response has
  two sources.
\<close>

theorem sources_exceed_top_k_counterexample:
  "top_k (QueryRequest ''What is the refund policy?'' (Some 1) None) = 1
   \<and> fst (query_documents
            (stub_env (reply 200 [] (hits (map JObj refund_records)))
               (reply 200 [] (completion (JStr ''30 days''))))
            (QueryRequest ''What is the refund policy?'' (Some 1) None) w0)
     = Inr \<lparr>answer = ''30 days'',
             sources =
               [[(''title'', JStr ''Refund policy''), (''url'', JStr ''https://example.org/refunds''),
                 (''chunk_id'', JStr ''doc1-0''), (''score'', JFloat 0.5)],
                [(''title'', JStr ''FAQ''), (''url'', JStr []), (''chunk_id'', JStr []),
                 (''score'', JInt 0)]]\<rparr>
   \<and> \<not> int (length
              [[(''title'', JStr ''Refund policy''), (''url'', JStr ''https://example.org/refunds''),
                (''chunk_id'', JStr ''doc1-0''), (''score'', JFloat 0.5)],
               [(''title'', JStr ''FAQ''), (''url'', JStr []), (''chunk_id'', JStr []),
                (''score'', JInt 0)]])
          \<le> top_k (QueryRequest ''What is the refund policy?'' (Some 1) None)"
  by (simp add: query_documents_fst search_documents_fst generate_answer_fst build_context_def
        py_iter_def py_in_def make_source_def py_get_def py_join_def refund_records_def
        stub_env_def reply_def hits_def completion_def extract_answer_def py_getitem_def
        py_index_0 QueryRequest_def ChatResponse_def)

text \<open>
  Claim C1, amended. For every request the handler returns either a ChatResponse whose
  sources are the Sources of the records that \<open>search_documents\<close> returned, one for one
  in the same order (as many as the search service sent, whatever \<open>top_k\<close> is), or the
  error response: status 500 with the detail \<open>Error processing query: \<close> followed by the
  text of an exception. Every exception raised by \<open>search_documents\<close> or by
  \<open>generate_answer\<close> becomes that error response.
\<close>

theorem query_documents_response_or_error:
  "((\<exists>resp v recs.
        fst (query_documents E request w) = Inr resp
        \<and> fst (search_documents E (query request) (top_k request) (filter' request) w) = Inr v
        \<and> py_iter v = Inr (map JObj recs)
        \<and> sources resp = map spec_source recs
        \<and> length (sources resp) = length recs)
     \<or> (\<exists>e. fst (query_documents E request w)
               = Inl (HTTPException 500 (''Error processing query: '' @ exn_str E e))))
   \<and> (fst (search_documents E (query request) (top_k request) (filter' request) w) = Inl e1
       \<longrightarrow> fst (query_documents E request w)
             = Inl (HTTPException 500 (''Error processing query: '' @ exn_str E e1)))
   \<and> (fst (search_documents E (query request) (top_k request) (filter' request) w) = Inr v'
        \<and> fst (generate_answer E (query request) v' w') = Inl e2
       \<longrightarrow> fst (query_documents E request w)
             = Inl (HTTPException 500 (''Error processing query: '' @ exn_str E e2)))"
proof -
  let ?sd = "search_documents E (query request) (top_k request) (filter' request) w"
  have indep: "fst (generate_answer E q v w2) = fst (generate_answer E q v w3)" for q v w2 w3
    by (simp add: generate_answer_fst)
  have search_raises: "fst (query_documents E request w)
             = Inl (HTTPException 500 (''Error processing query: '' @ exn_str E e))"
    if "fst ?sd = Inl e" for e
    using that by (simp add: query_documents_fst)
  have answer_raises: "fst (query_documents E request w)
             = Inl (HTTPException 500 (''Error processing query: '' @ exn_str E e))"
    if "fst ?sd = Inr v" and "fst (generate_answer E (query request) v w2) = Inl e" for v w2 e
    using that indep [of "query request" v "snd ?sd" w2] by (simp add: query_documents_fst)
  have shape: "(\<exists>resp v recs.
        fst (query_documents E request w) = Inr resp \<and> fst ?sd = Inr v
        \<and> py_iter v = Inr (map JObj recs)
        \<and> sources resp = map spec_source recs
        \<and> length (sources resp) = length recs)
     \<or> (\<exists>e. fst (query_documents E request w)
               = Inl (HTTPException 500 (''Error processing query: '' @ exn_str E e)))"
  proof (cases "fst ?sd")
    case (Inl e)
    then show ?thesis using search_raises by blast
  next
    case sd: (Inr v)
    show ?thesis
    proof (cases "fst (generate_answer E (query request) v (snd ?sd))")
      case (Inl e)
      with sd show ?thesis using answer_raises by blast
    next
      case ga: (Inr p)
      obtain a srcs where p: "p = (a, srcs)" by (cases p)
      from ga p obtain ctx where bc: "build_context v = Inr (ctx, srcs)"
        by (auto simp: generate_answer_fst split: sum.splits http_result.splits if_splits)
      from build_context_sources [OF bc] obtain recs
        where recs: "py_iter v = Inr (map JObj recs)" "srcs = map spec_source recs"
        by blast
      show ?thesis
      proof (cases "ChatResponse a srcs")
        case (Inl e)
        with sd ga p show ?thesis by (auto simp: query_documents_fst)
      next
        case (Inr resp)
        then have "sources resp = srcs"
          by (auto simp: ChatResponse_def split: json.splits)
        with Inr sd ga p recs show ?thesis
          by (auto simp: query_documents_fst)
      qed
    qed
  qed
  from shape search_raises answer_raises show ?thesis by blast
qed

theorem query_documents_response_or_error_witness:
  "fst (search_documents (stub_env (Raises (TransportError ''timed out'')) (Raises IndexError))
          ''x'' 3 None w0)
     = Inl (TransportError ''timed out'')
   \<and> fst (query_documents (stub_env (Raises (TransportError ''timed out'')) (Raises IndexError))
            (QueryRequest ''x'' None None) w0)
     = Inl (HTTPException 500 ''Error processing query: error'')
   \<and> fst (search_documents
            (stub_env (reply 200 [] (hits [])) (reply 500 ''Internal Server Error'' JNull))
            ''x'' 3 None w0)
     = Inr (JArr [])
   \<and> fst (generate_answer
            (stub_env (reply 200 [] (hits [])) (reply 500 ''Internal Server Error'' JNull))
            ''x'' (JArr []) w0)
     = Inl (HTTPException 500 ''Internal Server Error'')
   \<and> fst (query_documents
            (stub_env (reply 200 [] (hits [])) (reply 500 ''Internal Server Error'' JNull))
            (QueryRequest ''x'' None None) w0)
     = Inl (HTTPException 500 ''Error processing query: 500: Internal Server Error'')"
proof -
  let ?A = "stub_env (Raises (TransportError ''timed out'')) (Raises IndexError)"
  let ?B = "stub_env (reply 200 [] (hits [])) (reply 500 ''Internal Server Error'' JNull)"
  let ?R = "QueryRequest ''x'' None None"
  have R: "query ?R = ''x''" "top_k ?R = 3" "filter' ?R = None"
    by (simp_all add: QueryRequest_def)
  have a1: "fst (search_documents ?A ''x'' 3 None w0) = Inl (TransportError ''timed out'')"
    by (simp add: search_documents_fst stub_env_def)
  have b1: "fst (search_documents ?B ''x'' 3 None w0) = Inr (JArr [])"
    by (simp add: search_documents_fst stub_env_def reply_def hits_def py_get_def)
  have b2: "fst (generate_answer ?B ''x'' (JArr []) w0) = Inl (HTTPException 500 ''Internal Server Error'')"
    by (simp add: generate_answer_fst build_context_def py_iter_def py_join_def stub_env_def
          reply_def)
  have a3: "fst (query_documents ?A ?R w0) = Inl (HTTPException 500 ''Error processing query: error'')"
    using query_documents_response_or_error
      [of ?A ?R w0 "TransportError ''timed out''" "JArr []" w0 IndexError] a1
    by (simp add: R exn_str_def stub_env_def)
  have b3: "fst (query_documents ?B ?R w0)
            = Inl (HTTPException 500 ''Error processing query: 500: Internal Server Error'')"
    using query_documents_response_or_error
      [of ?B ?R w0 IndexError "JArr []" w0 "HTTPException 500 ''Internal Server Error''"] b1 b2
    by (simp add: R exn_str_def str_int_def str_nat.simps)
  from a1 a3 b1 b2 b3 show ?thesis by blast
qed

section \<open>The claims about the request model and the answer extraction\<close>

text \<open>
  Claim C8, as stated, has every accepted request satisfy the invariant, and none that
  violates it reach the Retriever. The request model accepts the empty query and
  \<open>top_k = 0\<close>, and the handler sends the search call for it and answers.
\<close>

theorem invalid_request_reaches_retriever_counterexample:
  "\<not> valid_request (QueryRequest [] (Some 0) None)
   \<and> calls (snd (query_documents
                   (stub_env (reply 200 [] (hits [])) (reply 200 [] (completion (JStr ''nothing''))))
                   (QueryRequest [] (Some 0) None) w0))
     = [SearchCall
          (search_request
             (stub_env (reply 200 [] (hits [])) (reply 200 [] (completion (JStr ''nothing''))))
             [] 0 None),
        GenerationCall
          (openai_request
             (stub_env (reply 200 [] (hits [])) (reply 200 [] (completion (JStr ''nothing''))))
             [] [])]
   \<and> map_of (search_body [] 0 None) ''top'' = Some (JInt 0)
   \<and> fst (query_documents
            (stub_env (reply 200 [] (hits [])) (reply 200 [] (completion (JStr ''nothing''))))
            (QueryRequest [] (Some 0) None) w0)
     = Inr \<lparr>answer = ''nothing'', sources = []\<rparr>"
  by (simp add: valid_request_def QueryRequest_def query_documents_calls query_documents_fst
        search_documents_fst search_documents_calls generate_answer_calls generate_answer_fst
        build_context_def py_iter_def py_join_def py_get_def stub_env_def reply_def hits_def
        completion_def extract_answer_def py_getitem_def py_index_0 ChatResponse_def w0_def
        search_body_def)

text \<open>
  Claim C8, amended. A request has a text query, an integer \<open>top_k\<close> that is 3 when
  not supplied, and a filter that is absent when not supplied; supplied values are taken as
  they are. The handler checks neither that the query is non-empty nor that \<open>top_k\<close> is
  positive: for every request its first outbound call is the search call for that request's
  query, \<open>top_k\<close> and filter, unchanged.
\<close>

theorem query_request_defaults_passed_on:
  "QueryRequest q None None = \<lparr>query = q, top_k = 3, filter' = None\<rparr>
   \<and> QueryRequest q (Some k) (Some f) = \<lparr>query = q, top_k = k, filter' = f\<rparr>
   \<and> (\<exists>rest. calls (snd (query_documents E request w))
         = calls w @ SearchCall (search_request E (query request) (top_k request) (filter' request))
                     # rest)
   \<and> json (search_request E (query request) (top_k request) (filter' request))
       = JObj (search_body (query request) (top_k request) (filter' request))"
proof -
  have "\<exists>rest. calls (snd (query_documents E request w))
         = calls w @ SearchCall (search_request E (query request) (top_k request) (filter' request))
                     # rest"
    by (auto simp: query_documents_calls generate_answer_calls search_documents_calls
             split: sum.splits)
  then show ?thesis
    by (simp add: QueryRequest_def search_request_def)
qed

text \<open>
  Claim C10. The answer is the content of the message of the first choice. When the payload
  of a 200 generation response has that structure the extraction yields the content and
  \<open>generate_answer\<close> returns it with the sources; when it does not (no choices, or a
  part of the structure missing) the extraction raises, and so does \<open>generate_answer\<close>,
  and the handler returns the error response in place of a ChatResponse.
\<close>

theorem extract_answer_partial:
  "(first_choice_content payload = Some c \<longrightarrow> extract_answer payload = Inr c)
   \<and> (first_choice_content payload = None \<longrightarrow> (\<exists>e. extract_answer payload = Inl e))
   \<and> (fst (search_documents E (query request) (top_k request) (filter' request) w) = Inr v
        \<and> build_context v = Inr (ctx, srcs)
        \<and> generation_service E (openai_request E ctx (query request)) = Responds r
        \<and> status_code r = 200 \<and> resp_json r = Inr payload
       \<longrightarrow> (case first_choice_content payload of
              Some c \<Rightarrow> fst (generate_answer E (query request) v w') = Inr (c, srcs)
            | None \<Rightarrow>
                (\<exists>e. extract_answer payload = Inl e
                     \<and> fst (generate_answer E (query request) v w') = Inl e
                     \<and> fst (query_documents E request w)
                         = Inl (HTTPException 500
                                  (''Error processing query: '' @ exn_str E e)))))"
proof -
  have good: "extract_answer payload = Inr c" if "first_choice_content payload = Some c" for c
    using that by (rule extract_answer_Some)
  have bad: "\<exists>e. extract_answer payload = Inl e" if "first_choice_content payload = None"
    using that by (rule extract_answer_None)
  have run: "case first_choice_content payload of
              Some c \<Rightarrow> fst (generate_answer E (query request) v w') = Inr (c, srcs)
            | None \<Rightarrow>
                (\<exists>e. extract_answer payload = Inl e
                     \<and> fst (generate_answer E (query request) v w') = Inl e
                     \<and> fst (query_documents E request w)
                         = Inl (HTTPException 500
                                  (''Error processing query: '' @ exn_str E e)))"
    if sd: "fst (search_documents E (query request) (top_k request) (filter' request) w) = Inr v"
      and bc: "build_context v = Inr (ctx, srcs)"
      and gs: "generation_service E (openai_request E ctx (query request)) = Responds r"
      and ok: "status_code r = 200" and pl: "resp_json r = Inr payload"
  proof (cases "first_choice_content payload")
    case None
    from bad [OF None] obtain e where e: "extract_answer payload = Inl e" ..
    have ga: "fst (generate_answer E (query request) v w2) = Inl e" for w2
      using bc gs ok pl e by (simp add: generate_answer_fst)
    have "fst (query_documents E request w)
            = Inl (HTTPException 500 (''Error processing query: '' @ exn_str E e))"
      using sd ga by (simp add: query_documents_fst)
    with None e ga show ?thesis by simp
  next
    case (Some c)
    from good [OF Some] bc gs ok pl Some show ?thesis
      by (simp add: generate_answer_fst)
  qed
  from good bad run show ?thesis by blast
qed

theorem extract_answer_partial_witness:
  "first_choice_content (completion (JStr ''30 days'')) = Some (JStr ''30 days'')
   \<and> extract_answer (completion (JStr ''30 days'')) = Inr (JStr ''30 days'')
   \<and> first_choice_content (JObj [(''choices'', JArr [])]) = None
   \<and> extract_answer (JObj [(''choices'', JArr [])]) = Inl IndexError
   \<and> fst (generate_answer
            (stub_env (reply 200 [] (hits [])) (reply 200 [] (JObj [(''choices'', JArr [])])))
            ''x'' (JArr []) w0)
     = Inl IndexError
   \<and> fst (query_documents
            (stub_env (reply 200 [] (hits [])) (reply 200 [] (JObj [(''choices'', JArr [])])))
            (QueryRequest ''x'' None None) w0)
     = Inl (HTTPException 500 ''Error processing query: error'')
   \<and> fst (generate_answer
            (stub_env (reply 200 [] (hits [])) (reply 200 [] (completion (JStr ''30 days''))))
            ''x'' (JArr []) w0)
     = Inr (JStr ''30 days'', [])"
proof -
  let ?B = "stub_env (reply 200 [] (hits [])) (reply 200 [] (JObj [(''choices'', JArr [])]))"
  let ?G = "stub_env (reply 200 [] (hits [])) (reply 200 [] (completion (JStr ''30 days'')))"
  let ?R = "QueryRequest ''x'' None None"
  have R: "query ?R = ''x''" "top_k ?R = 3" "filter' ?R = None"
    by (simp_all add: QueryRequest_def)
  have f1: "first_choice_content (completion (JStr ''30 days'')) = Some (JStr ''30 days'')"
    by (simp add: first_choice_content_def completion_def)
  have f2: "first_choice_content (JObj [(''choices'', JArr [])]) = None"
    by (simp add: first_choice_content_def)
  have x2: "extract_answer (JObj [(''choices'', JArr [])]) = Inl IndexError"
    by (simp add: extract_answer_def py_getitem_def py_index_0)
  have bc: "build_context (JArr []) = Inr ([], [])"
    by (simp add: build_context_def py_iter_def py_join_def)
  have sB: "fst (search_documents ?B ''x'' 3 None w0) = Inr (JArr [])"
    by (simp add: search_documents_fst stub_env_def reply_def hits_def py_get_def)
  have sG: "fst (search_documents ?G ''x'' 3 None w0) = Inr (JArr [])"
    by (simp add: search_documents_fst stub_env_def reply_def hits_def py_get_def)
  have gB: "generation_service ?B (openai_request ?B [] ''x'')
            = Responds \<lparr>status_code = 200, resp_text = [],
                         resp_json = Inr (JObj [(''choices'', JArr [])])\<rparr>"
    by (simp add: stub_env_def reply_def)
  have gG: "generation_service ?G (openai_request ?G [] ''x'')
            = Responds \<lparr>status_code = 200, resp_text = [],
                         resp_json = Inr (completion (JStr ''30 days''))\<rparr>"
    by (simp add: stub_env_def reply_def)
  note good = extract_answer_partial
    [of "completion (JStr ''30 days'')" "JStr ''30 days''" ?G ?R w0 "JArr []" "[]" "[]"
        "\<lparr>status_code = 200, resp_text = [], resp_json = Inr (completion (JStr ''30 days''))\<rparr>" w0]
  note bad = extract_answer_partial
    [of "JObj [(''choices'', JArr [])]" JNull ?B ?R w0 "JArr []" "[]" "[]"
        "\<lparr>status_code = 200, resp_text = [], resp_json = Inr (JObj [(''choices'', JArr [])])\<rparr>" w0]
  from good f1 sG bc gG
  have g1: "extract_answer (completion (JStr ''30 days'')) = Inr (JStr ''30 days'')"
    and g2: "fst (generate_answer ?G ''x'' (JArr []) w0) = Inr (JStr ''30 days'', [])"
    by (simp_all add: R)
  from bad f2 sB bc gB x2
  have b1: "fst (generate_answer ?B ''x'' (JArr []) w0) = Inl IndexError"
    and b2: "fst (query_documents ?B ?R w0) = Inl (HTTPException 500 ''Error processing query: error'')"
    by (simp_all add: R exn_str_def stub_env_def)
  from f1 g1 f2 x2 b1 b2 g2 show ?thesis by blast
qed

end
